theory Spec2Isabelle
  imports Main "HOL-Library.Word"
begin

unbundle bit_operations_syntax

section \<open>The explicit free-list allocator of mm.c on an LP64 machine\<close>

text \<open>
  The model fixes the 64-bit data model of the C program: \<open>size_t\<close> and pointers are
  64-bit words, \<open>int\<close> is a 32-bit two's complement word, so \<open>WORD_SIZE = 8\<close> and
  \<open>MIN_BLOCK_SIZE = sizeof(block_info) + WORD_SIZE = 32\<close>.

  The heap of the simulator is a store of 64-bit words keyed by their byte address, a
  natural number below \<open>2 ^ 64\<close>.
  Every access of mm.c is a word access through a pointer; an access through the null
  pointer, through a pointer that is not 8-byte aligned, or outside of
  \<open>[mem_heap_lo, mem_heap_hi]\<close> is an error of the model.
\<close>

subsection \<open>Heap simulator\<close>

type_synonym addr = "64 word"
type_synonym size_t = "64 word"
type_synonym c_int = "32 word"

record heap =
  mem :: "nat \<Rightarrow> 64 word"
  mem_start_brk :: addr
  mem_brk :: addr
  mem_max_addr :: addr

datatype error = NullDeref | OutOfHeap | Misaligned | Exit

text \<open>A computation either diverges (\<open>None\<close>), stops with an error, or returns.\<close>

type_synonym 'a result = "(error + 'a) option"

abbreviation ret :: "'a \<Rightarrow> 'a result" where
  "ret x \<equiv> Some (Inr x)"

abbreviation fail :: "error \<Rightarrow> 'a result" where
  "fail e \<equiv> Some (Inl e)"

abbreviation bindR :: "'a result \<Rightarrow> ('a \<Rightarrow> 'b result) \<Rightarrow> 'b result" where
  "bindR m f \<equiv> Option.bind m (\<lambda>r. case r of Inl e \<Rightarrow> Some (Inl e) | Inr x \<Rightarrow> f x)"

text \<open>
  Modelled from the spec: memlib.c is not part of the sources. \<open>low()\<close> is the lowest heap
  address, \<open>high()\<close> the highest one, \<open>page_size()\<close> a stable positive constant (4096 in the
  spec's scenarios) and \<open>grow(n)\<close> extends the heap by exactly \<open>n\<close> bytes and returns the
  address of the first new byte, or the failure value \<open>(void * ) -1\<close> on exhaustion.
\<close>

definition mem_heap_lo :: "heap \<Rightarrow> addr" where
  "mem_heap_lo s = mem_start_brk s"

definition mem_heap_hi :: "heap \<Rightarrow> addr" where
  "mem_heap_hi s = mem_brk s - 1"

definition mem_pagesize :: size_t where
  "mem_pagesize = 4096"

definition mem_sbrk :: "heap \<Rightarrow> size_t \<Rightarrow> heap \<times> addr" where
  "mem_sbrk s incr =
     (if unat (mem_brk s) + unat incr \<le> unat (mem_max_addr s)
      then (s\<lparr>mem_brk := mem_brk s + incr\<rparr>, mem_brk s)
      else (s, - 1))"

subsection \<open>Word accesses\<close>

definition in_heap :: "heap \<Rightarrow> addr \<Rightarrow> bool" where
  "in_heap s p \<longleftrightarrow> unat (mem_start_brk s) \<le> unat p \<and> unat p + 8 \<le> unat (mem_brk s)"

definition load :: "heap \<Rightarrow> addr \<Rightarrow> 64 word result" where
  "load s p =
     (if p = 0 then fail NullDeref
      else if p AND 7 \<noteq> 0 then fail Misaligned
      else if \<not> in_heap s p then fail OutOfHeap
      else ret (mem s (unat p)))"

definition store :: "heap \<Rightarrow> addr \<Rightarrow> 64 word \<Rightarrow> heap result" where
  "store s p v =
     (if p = 0 then fail NullDeref
      else if p AND 7 \<noteq> 0 then fail Misaligned
      else if \<not> in_heap s p then fail OutOfHeap
      else ret (s\<lparr>mem := (mem s)(unat p := v)\<rparr>))"

subsection \<open>Constants and pointer arithmetic of mm.c\<close>

text \<open>
  \<open>UNSCALED_POINTER_ADD\<close> and \<open>UNSCALED_POINTER_SUB\<close> take their offset as an \<open>int\<close>: a
  \<open>size_t\<close> argument is truncated to 32 bits and sign-extended again.
\<close>

definition UNSCALED_POINTER_ADD :: "addr \<Rightarrow> c_int \<Rightarrow> addr" where
  "UNSCALED_POINTER_ADD p x = p + scast x"

definition UNSCALED_POINTER_SUB :: "addr \<Rightarrow> c_int \<Rightarrow> addr" where
  "UNSCALED_POINTER_SUB p x = p - scast x"

definition to_int :: "size_t \<Rightarrow> c_int" where
  "to_int x = ucast x"

definition WORD_SIZE :: size_t where
  "WORD_SIZE = 8"

definition MIN_BLOCK_SIZE :: size_t where
  "MIN_BLOCK_SIZE = 3 * 8 + WORD_SIZE"

definition ALIGNMENT :: size_t where
  "ALIGNMENT = 8"

definition SIZE :: "size_t \<Rightarrow> size_t" where
  "SIZE x = x AND NOT (ALIGNMENT - 1)"

definition TAG_USED :: size_t where
  "TAG_USED = 1"

definition TAG_PRECEDING_USED :: size_t where
  "TAG_PRECEDING_USED = 2"

text \<open>The fields of \<open>struct block_info\<close>: \<open>size_and_tags\<close> at offset 0, \<open>next\<close> at 8, \<open>prev\<close> at 16.\<close>

definition next_of :: "addr \<Rightarrow> addr" where
  "next_of b = b + 8"

definition prev_of :: "addr \<Rightarrow> addr" where
  "prev_of b = b + 16"

definition get_FREE_LIST_HEAD :: "heap \<Rightarrow> addr result" where
  "get_FREE_LIST_HEAD s = load s (mem_heap_lo s)"

definition set_FREE_LIST_HEAD :: "heap \<Rightarrow> addr \<Rightarrow> heap result" where
  "set_FREE_LIST_HEAD s b = store s (mem_heap_lo s) b"

subsection \<open>The free list\<close>

partial_function (option) search_loop :: "heap \<Rightarrow> size_t \<Rightarrow> addr \<Rightarrow> addr result" where
  "search_loop s req_size free_block =
     (if free_block \<noteq> 0 then
        bindR (load s free_block) (\<lambda>h.
          if SIZE h \<ge> req_size then ret free_block
          else bindR (load s (next_of free_block)) (\<lambda>n. search_loop s req_size n))
      else ret 0)"

declare search_loop.simps [code]

definition search_free_list :: "heap \<Rightarrow> size_t \<Rightarrow> addr result" where
  "search_free_list s req_size =
     bindR (get_FREE_LIST_HEAD s) (\<lambda>free_block. search_loop s req_size free_block)"

definition insert_free_block :: "heap \<Rightarrow> addr \<Rightarrow> heap result" where
  "insert_free_block s free_block =
     bindR (get_FREE_LIST_HEAD s) (\<lambda>old_head.
     bindR (store s (next_of free_block) old_head) (\<lambda>s1.
     bindR (if old_head \<noteq> 0 then store s1 (prev_of old_head) free_block else ret s1) (\<lambda>s2.
     bindR (store s2 (prev_of free_block) 0) (\<lambda>s3.
     set_FREE_LIST_HEAD s3 free_block))))"

definition remove_free_block :: "heap \<Rightarrow> addr \<Rightarrow> heap result" where
  "remove_free_block s free_block =
     bindR (load s (next_of free_block)) (\<lambda>next_free.
     bindR (load s (prev_of free_block)) (\<lambda>prev_free.
     bindR (if next_free \<noteq> 0 then store s (prev_of next_free) prev_free else ret s) (\<lambda>s1.
     bindR (get_FREE_LIST_HEAD s1) (\<lambda>head.
     if free_block = head then set_FREE_LIST_HEAD s1 next_free
     else store s1 (next_of prev_free) next_free))))"

subsection \<open>Coalescing\<close>

partial_function (option) coalesce_preceding ::
    "heap \<Rightarrow> addr \<Rightarrow> size_t \<Rightarrow> (heap \<times> addr \<times> size_t) result" where
  "coalesce_preceding s block_cursor new_size =
     bindR (load s block_cursor) (\<lambda>h.
       if h AND TAG_PRECEDING_USED = 0 then
         bindR (load s (UNSCALED_POINTER_SUB block_cursor (to_int WORD_SIZE))) (\<lambda>f.
           let size = SIZE f;
               free_block = UNSCALED_POINTER_SUB block_cursor (to_int size)
           in bindR (remove_free_block s free_block) (\<lambda>s1.
                coalesce_preceding s1 free_block (new_size + size)))
       else ret (s, block_cursor, new_size))"

declare coalesce_preceding.simps [code]

partial_function (option) coalesce_following ::
    "heap \<Rightarrow> addr \<Rightarrow> size_t \<Rightarrow> (heap \<times> addr \<times> size_t) result" where
  "coalesce_following s block_cursor new_size =
     bindR (load s block_cursor) (\<lambda>h.
       if h AND TAG_USED = 0 then
         let size = SIZE h
         in bindR (remove_free_block s block_cursor) (\<lambda>s1.
              coalesce_following s1 (UNSCALED_POINTER_ADD block_cursor (to_int size))
                (new_size + size))
       else ret (s, block_cursor, new_size))"

declare coalesce_following.simps [code]

definition coalesce_free_block :: "heap \<Rightarrow> addr \<Rightarrow> heap result" where
  "coalesce_free_block s old_block =
     bindR (load s old_block) (\<lambda>h.
       let old_size = SIZE h in
       bindR (coalesce_preceding s old_block old_size) (\<lambda>(s1, new_block, new_size1).
       bindR (coalesce_following s1 (UNSCALED_POINTER_ADD old_block (to_int old_size)) new_size1)
         (\<lambda>(s2, block_cursor, new_size).
       if new_size \<noteq> old_size then
         bindR (remove_free_block s2 old_block) (\<lambda>s3.
         bindR (store s3 new_block (new_size OR TAG_PRECEDING_USED)) (\<lambda>s4.
         bindR (store s4 (UNSCALED_POINTER_SUB block_cursor (to_int WORD_SIZE))
                  (new_size OR TAG_PRECEDING_USED)) (\<lambda>s5.
         insert_free_block s5 new_block)))
       else ret s2)))"

subsection \<open>Growing the heap\<close>

definition request_more_space :: "heap \<Rightarrow> size_t \<Rightarrow> heap result" where
  "request_more_space s req_size =
     (let pagesize = mem_pagesize;
          num_pages = (req_size + pagesize - 1) div pagesize;
          total_size = num_pages * pagesize;
          (s1, mem_sbrk_result) = mem_sbrk s total_size
      in if mem_sbrk_result = - 1 then fail Exit
         else
           let new_block = UNSCALED_POINTER_SUB mem_sbrk_result (to_int WORD_SIZE) in
           bindR (load s1 new_block) (\<lambda>h.
             let prev_last_word_mask = h AND TAG_PRECEDING_USED in
             bindR (store s1 new_block (total_size OR prev_last_word_mask)) (\<lambda>s2.
             bindR (store s2 (UNSCALED_POINTER_ADD new_block (to_int (total_size - WORD_SIZE)))
                      (total_size OR prev_last_word_mask)) (\<lambda>s3.
             bindR (store s3 (UNSCALED_POINTER_ADD new_block (to_int total_size)) TAG_USED) (\<lambda>s4.
             bindR (insert_free_block s4 new_block) (\<lambda>s5.
             coalesce_free_block s5 new_block))))))"

subsection \<open>The public interface\<close>

definition mm_init :: "heap \<Rightarrow> (heap \<times> c_int) result" where
  "mm_init s =
     (let init_size = WORD_SIZE + MIN_BLOCK_SIZE + WORD_SIZE;
          (s1, mem_sbrk_result) = mem_sbrk s init_size
      in if mem_sbrk_result = - 1 then fail Exit
         else
           let first_free_block = UNSCALED_POINTER_ADD (mem_heap_lo s1) (to_int WORD_SIZE);
               total_size = init_size - WORD_SIZE - WORD_SIZE
           in
           bindR (store s1 first_free_block (total_size OR TAG_PRECEDING_USED)) (\<lambda>s2.
           bindR (store s2 (next_of first_free_block) 0) (\<lambda>s3.
           bindR (store s3 (prev_of first_free_block) 0) (\<lambda>s4.
           bindR (store s4 (UNSCALED_POINTER_ADD first_free_block (to_int (total_size - WORD_SIZE)))
                    (total_size OR TAG_PRECEDING_USED)) (\<lambda>s5.
           bindR (store s5 (UNSCALED_POINTER_SUB (mem_heap_hi s5) (to_int (WORD_SIZE - 1))) TAG_USED)
             (\<lambda>s6.
           bindR (set_FREE_LIST_HEAD s6 first_free_block) (\<lambda>s7.
           ret (s7, 0))))))))"

definition request_size :: "size_t \<Rightarrow> size_t" where
  "request_size size0 =
     (let size = size0 + WORD_SIZE
      in if size \<le> MIN_BLOCK_SIZE then MIN_BLOCK_SIZE
         else ALIGNMENT * ((size + ALIGNMENT - 1) div ALIGNMENT))"

text \<open>Lines 397 to 434 of mm.c: what \<open>mm_malloc\<close> does with the block the search gave it.\<close>

definition place :: "heap \<Rightarrow> addr \<Rightarrow> size_t \<Rightarrow> (heap \<times> addr) result" where
  "place s ptr_free_block req_size =
     bindR (load s ptr_free_block) (\<lambda>h0.
     bindR (store s ptr_free_block (h0 OR TAG_USED)) (\<lambda>s1.
     bindR (remove_free_block s1 ptr_free_block) (\<lambda>s2.
     bindR (load s2 ptr_free_block) (\<lambda>h.
       let block_size = SIZE h;
           preceding_block_use_tag = h AND TAG_PRECEDING_USED
       in
       bindR
         (if block_size - req_size \<ge> MIN_BLOCK_SIZE then
            bindR (store s2 ptr_free_block (req_size OR preceding_block_use_tag)) (\<lambda>s3.
            bindR (load s3 ptr_free_block) (\<lambda>h3.
            bindR (store s3 ptr_free_block (h3 OR TAG_USED)) (\<lambda>s4.
              let split_ptr = UNSCALED_POINTER_ADD ptr_free_block (to_int req_size) in
              bindR (store s4 split_ptr (block_size - req_size)) (\<lambda>s5.
              bindR (load s5 split_ptr) (\<lambda>h5.
              bindR (store s5 split_ptr (h5 AND NOT TAG_USED)) (\<lambda>s6.
              bindR (load s6 split_ptr) (\<lambda>h6.
              bindR (store s6 split_ptr (h6 OR TAG_PRECEDING_USED)) (\<lambda>s7.
              bindR (load s7 split_ptr) (\<lambda>h7.
                let split_size = SIZE h7;
                    footer = UNSCALED_POINTER_SUB
                               (UNSCALED_POINTER_ADD split_ptr (to_int split_size))
                               (to_int WORD_SIZE)
                in
                bindR (store s7 footer h7) (\<lambda>s8.
                insert_free_block s8 split_ptr))))))))))
          else
            let following_block = UNSCALED_POINTER_ADD ptr_free_block (to_int block_size) in
            bindR (load s2 following_block) (\<lambda>hf.
            store s2 following_block (hf OR TAG_PRECEDING_USED)))
         (\<lambda>s9. ret (s9, UNSCALED_POINTER_ADD ptr_free_block (to_int WORD_SIZE)))))))"

text \<open>Lines 390 to 395 of mm.c: the search, and the second search after growing the heap.\<close>

definition find_block :: "heap \<Rightarrow> size_t \<Rightarrow> (heap \<times> addr) result" where
  "find_block s req_size =
     bindR (search_free_list s req_size) (\<lambda>p.
       if p = 0 then
         bindR (request_more_space s req_size) (\<lambda>s1.
         bindR (search_free_list s1 req_size) (\<lambda>p1. ret (s1, p1)))
       else ret (s, p))"

definition mm_malloc :: "heap \<Rightarrow> size_t \<Rightarrow> (heap \<times> addr) result" where
  "mm_malloc s size0 =
     (if size0 = 0 then ret (s, 0)
      else
        let req_size = request_size size0 in
        bindR (find_block s req_size) (\<lambda>(s2, ptr_free_block).
        place s2 ptr_free_block req_size))"

definition mm_free :: "heap \<Rightarrow> addr \<Rightarrow> heap result" where
  "mm_free s ptr =
     (let block_to_free = UNSCALED_POINTER_SUB ptr (to_int WORD_SIZE) in
      bindR (load s block_to_free) (\<lambda>h.
        let block_size = SIZE h;
            following_block = UNSCALED_POINTER_ADD block_to_free (to_int block_size)
        in
        bindR (store s block_to_free (h AND NOT TAG_USED)) (\<lambda>s1.
        bindR (load s1 following_block) (\<lambda>hf.
        bindR (store s1 following_block (hf AND NOT TAG_PRECEDING_USED)) (\<lambda>s2.
        bindR (load s2 block_to_free) (\<lambda>h2.
        bindR (store s2 (UNSCALED_POINTER_ADD block_to_free (to_int (block_size - WORD_SIZE))) h2)
          (\<lambda>s3.
        bindR (insert_free_block s3 block_to_free) (\<lambda>s4.
        coalesce_free_block s4 block_to_free))))))))"

definition mm_check :: "heap \<Rightarrow> c_int" where
  "mm_check s = 0"

subsection \<open>The heap as \<open>examine_heap\<close> prints it\<close>

text \<open>
  \<open>examine_heap\<close> walks the heap as an implicit list and prints the head of the free list and
  one line per block: its address, size, the two tags and, for a free block, its \<open>next\<close> and
  \<open>prev\<close> pointers. The model returns what is printed.
\<close>

datatype line =
    ALLOCATED addr size_t size_t size_t
  | FREE addr size_t size_t size_t addr addr

partial_function (option) examine_loop :: "heap \<Rightarrow> addr \<Rightarrow> line list result" where
  "examine_loop s block =
     bindR (load s block) (\<lambda>h.
       if SIZE h \<noteq> 0 \<and> block < mem_heap_hi s then
         if h AND TAG_USED \<noteq> 0 then
           bindR (examine_loop s (UNSCALED_POINTER_ADD block (to_int (SIZE h)))) (\<lambda>ls.
             ret (ALLOCATED block (SIZE h) (h AND TAG_PRECEDING_USED) (h AND TAG_USED) # ls))
         else
           bindR (load s (next_of block)) (\<lambda>n.
           bindR (load s (prev_of block)) (\<lambda>p.
           bindR (examine_loop s (UNSCALED_POINTER_ADD block (to_int (SIZE h)))) (\<lambda>ls.
             ret (FREE block (SIZE h) (h AND TAG_PRECEDING_USED) (h AND TAG_USED) n p # ls))))
       else ret [])"

declare examine_loop.simps [code]

definition examine_heap :: "heap \<Rightarrow> (addr \<times> line list) result" where
  "examine_heap s =
     bindR (get_FREE_LIST_HEAD s) (\<lambda>head.
     bindR (examine_loop s (UNSCALED_POINTER_ADD (mem_heap_lo s) (to_int WORD_SIZE))) (\<lambda>ls.
     ret (head, ls)))"

subsection \<open>Well-formed free lists\<close>

text \<open>A pointer through which mm.c may read or write a word.\<close>

definition valid_ptr :: "heap \<Rightarrow> addr \<Rightarrow> bool" where
  "valid_ptr s p \<longleftrightarrow> p \<noteq> 0 \<and> p AND 7 = 0 \<and> in_heap s p"

text \<open>
  \<open>free_list s p bs\<close>: following the \<open>next\<close> pointers from \<open>p\<close> visits exactly the blocks \<open>bs\<close>,
  in this order, and ends at the null pointer.
\<close>

primrec free_list :: "heap \<Rightarrow> addr \<Rightarrow> addr list \<Rightarrow> bool" where
  "free_list s p [] \<longleftrightarrow> p = 0"
| "free_list s p (b # bs) \<longleftrightarrow>
     p = b \<and> valid_ptr s b \<and> valid_ptr s (next_of b) \<and>
     free_list s (mem s (unat (next_of b))) bs"

subsection \<open>Scenarios of the specification\<close>

text \<open>The simulator before \<open>mm_init\<close>: an empty heap at address \<open>0x10000\<close>, 20 MB at most.\<close>

definition fresh_heap :: "(nat \<Rightarrow> 64 word) \<Rightarrow> heap" where
  "fresh_heap m =
     \<lparr>mem = m, mem_start_brk = 0x10000, mem_brk = 0x10000, mem_max_addr = 0x10000 + 20971520\<rparr>"

text \<open>S6: \<open>init; a = allocate(16); b = allocate(16); free(a); free(b); c = allocate(16)\<close>.\<close>

definition lifo_scenario :: "heap \<Rightarrow> (addr \<times> addr \<times> addr) result" where
  "lifo_scenario s0 =
     bindR (mm_init s0) (\<lambda>(s1, r).
     bindR (mm_malloc s1 16) (\<lambda>(s2, a).
     bindR (mm_malloc s2 16) (\<lambda>(s3, b).
     bindR (mm_free s3 a) (\<lambda>s4.
     bindR (mm_free s4 b) (\<lambda>s5.
     bindR (mm_malloc s5 16) (\<lambda>(s6, c).
     ret (a, b, c)))))))"

text \<open>S3 and S4: \<open>init; a = allocate(64); b = allocate(64); c = allocate(64)\<close>.\<close>

definition three_blocks :: "heap \<Rightarrow> (heap \<times> addr \<times> addr \<times> addr) result" where
  "three_blocks s0 =
     bindR (mm_init s0) (\<lambda>(s1, r).
     bindR (mm_malloc s1 64) (\<lambda>(s2, a).
     bindR (mm_malloc s2 64) (\<lambda>(s3, b).
     bindR (mm_malloc s3 64) (\<lambda>(s4, c).
     ret (s4, a, b, c)))))"

definition free_b_then_c :: "heap \<Rightarrow> heap result" where
  "free_b_then_c s0 =
     bindR (three_blocks s0) (\<lambda>(s, a, b, c).
     bindR (mm_free s b) (\<lambda>s1. mm_free s1 c))"

definition free_c_then_b :: "heap \<Rightarrow> heap result" where
  "free_c_then_b s0 =
     bindR (three_blocks s0) (\<lambda>(s, a, b, c).
     bindR (mm_free s c) (\<lambda>s1. mm_free s1 b))"

text \<open>
  What is compared in S4: the heap bounds, what \<open>examine_heap\<close> prints, and the footer word
  of every free block printed.
\<close>

fun footer_word :: "heap \<Rightarrow> line \<Rightarrow> 64 word option" where
  "footer_word s (ALLOCATED b sz p u) = None"
| "footer_word s (FREE b sz p u n q) = Some (mem s (unat (b + sz - 8)))"

definition heap_view ::
    "heap \<Rightarrow> (addr \<times> addr \<times> addr \<times> line list \<times> 64 word option list) result" where
  "heap_view s =
     bindR (examine_heap s) (\<lambda>(head, ls).
     ret (mem_start_brk s, mem_brk s, head, ls, map (footer_word s) ls))"

text \<open>Invariant I6: the last word of the heap has size 0 and its \<open>USED\<close> tag set.\<close>

definition I6 :: "heap \<Rightarrow> bool" where
  "I6 s \<longleftrightarrow>
     SIZE (mem s (unat (mem_brk s - 8))) = 0 \<and>
     mem s (unat (mem_brk s - 8)) AND TAG_USED \<noteq> 0"

text \<open>The heap \<open>mm_init\<close> builds from zeroed memory, and the same heap with its last word cleared.\<close>

definition init_heap :: heap where
  "init_heap =
     \<lparr>mem = (\<lambda>_. 0)(0x10008 := 34, 0x10010 := 0, 0x10018 := 0, 0x10020 := 34, 0x10028 := 1,
              0x10000 := 0x10008),
      mem_start_brk = 0x10000, mem_brk = 0x10030, mem_max_addr = 0x10000 + 20971520\<rparr>"

definition broken_heap :: heap where
  "broken_heap = init_heap\<lparr>mem := (mem init_heap)(0x10028 := 0)\<rparr>"

text \<open>
  A heap of three blocks: a free one of 32 bytes, a used one of 32 bytes and a free one of
  64 bytes; the free list holds the first block and then the third.
\<close>

definition two_free_heap :: heap where
  "two_free_heap =
     \<lparr>mem = (\<lambda>_. 0)(0x10000 := 0x10008, 0x10008 := 34, 0x10010 := 0x10048, 0x10018 := 0,
              0x10020 := 34, 0x10028 := 33, 0x10048 := 66, 0x10050 := 0, 0x10058 := 0x10008,
              0x10080 := 66, 0x10088 := 1),
      mem_start_brk = 0x10000, mem_brk = 0x10090, mem_max_addr = 0x10000 + 20971520\<rparr>"

section \<open>Evaluation\<close>

lemma bind_weak_cong: "m = m' \<Longrightarrow> Option.bind m f = Option.bind m' f"
  by simp

lemmas mm_defs =
  mm_init_def mm_malloc_def find_block_def mm_free_def place_def request_size_def request_more_space_def
  coalesce_free_block_def remove_free_block_def insert_free_block_def search_free_list_def
  get_FREE_LIST_HEAD_def set_FREE_LIST_HEAD_def next_of_def prev_of_def
  TAG_USED_def TAG_PRECEDING_USED_def SIZE_def ALIGNMENT_def MIN_BLOCK_SIZE_def WORD_SIZE_def
  to_int_def UNSCALED_POINTER_ADD_def UNSCALED_POINTER_SUB_def load_def store_def in_heap_def
  mem_sbrk_def mem_pagesize_def mem_heap_hi_def mem_heap_lo_def Let_def examine_heap_def
  search_loop.simps coalesce_preceding.simps coalesce_following.simps examine_loop.simps

lemma init_fresh_heap: "mm_init (fresh_heap (\<lambda>_. 0)) = ret (init_heap, 0)"
  by (simp add: mm_defs fresh_heap_def init_heap_def cong: bind_weak_cong)

section \<open>Claims\<close>

lemma load_valid: "valid_ptr s p \<Longrightarrow> load s p = ret (mem s (unat p))"
  by (simp add: load_def valid_ptr_def)

lemma search_loop_free_list:
  "free_list s p bs \<Longrightarrow>
   search_loop s n p =
     ret (case find (\<lambda>b. n \<le> SIZE (mem s (unat b))) bs of None \<Rightarrow> 0 | Some b \<Rightarrow> b)"
proof (induction bs arbitrary: p)
  case Nil
  then show ?case by (subst search_loop.simps) simp
next
  case (Cons b bs)
  then show ?case
    by (subst search_loop.simps) (auto simp: load_valid valid_ptr_def)
qed

text \<open>
  C8: for every heap state, \<open>allocate(0)\<close> returns null and leaves the whole heap (the store,
  hence all block metadata and the free list, and the heap bounds) unchanged.
\<close>

theorem mm_malloc_zero: "mm_malloc s 0 = ret (s, 0)"
  by (simp add: mm_malloc_def)

lemma lifo_scenario_eval:
  "lifo_scenario (fresh_heap m) = ret (0x10010, 0x10030, 0x10010)"
  unfolding lifo_scenario_def
  by (simp add: mm_defs fresh_heap_def cong: bind_weak_cong)

lemma free_b_then_c_eval:
  "bindR (free_b_then_c (fresh_heap m)) heap_view =
     ret (0x10000, 0x11030, 0x10050,
          [ALLOCATED 0x10008 72 2 1, FREE 0x10050 4056 2 0 0 0], [None, Some 4058])"
  unfolding free_b_then_c_def three_blocks_def heap_view_def
  by (simp add: mm_defs fresh_heap_def cong: bind_weak_cong)

lemma free_c_then_b_eval:
  "bindR (free_c_then_b (fresh_heap m)) heap_view =
     ret (0x10000, 0x11030, 0x10050,
          [ALLOCATED 0x10008 72 2 1, FREE 0x10050 4056 2 0 0 0], [None, Some 4058])"
  unfolding free_c_then_b_def three_blocks_def heap_view_def
  by (simp add: mm_defs fresh_heap_def cong: bind_weak_cong)

text \<open>
  C2, as stated: in scenario S6 the pointer \<open>c\<close> equals \<open>b\<close>. On the heap that starts empty at
  \<open>0x10000\<close> with zeroed memory the scenario returns \<open>a = 0x10010\<close>, \<open>b = 0x10030\<close> and
  \<open>c = 0x10010\<close>, so \<open>c\<close> differs from \<open>b\<close>.
\<close>

theorem lifo_scenario_counterexample:
  "lifo_scenario (fresh_heap (\<lambda>_. 0)) = ret (0x10010, 0x10030, 0x10010) \<and>
   (0x10010 :: addr) \<noteq> 0x10030"
  using lifo_scenario_eval [of "\<lambda>_. 0"] by simp

text \<open>
  C2, amended: in scenario S6 the pointer \<open>c\<close> equals \<open>a\<close>, whatever the memory held before
  \<open>init\<close>: \<open>free(b)\<close> merges \<open>b\<close>'s block with the free block of \<open>a\<close> before it and with the
  free tail after it, and \<open>allocate(16)\<close> takes the start of the merged block.
\<close>

theorem lifo_scenario_returns_a:
  "lifo_scenario (fresh_heap m) = ret (0x10010, 0x10030, 0x10010)"
  by (rule lifo_scenario_eval)

text \<open>
  C5: after \<open>init; a = allocate(64); b = allocate(64); c = allocate(64)\<close>, freeing \<open>c\<close> then \<open>b\<close>
  and freeing \<open>b\<close> then \<open>c\<close> end in the same heap: both orders return, with the same bounds,
  the same head of the free list, the same blocks with the same sizes, tags and free-list
  pointers, and the same footers of the free blocks.
\<close>

theorem free_order_same_heap:
  "\<exists>v. bindR (free_c_then_b (fresh_heap m)) heap_view = ret v \<and>
       bindR (free_b_then_c (fresh_heap m)) heap_view = ret v"
  using free_b_then_c_eval [of m] free_c_then_b_eval [of m] by simp

text \<open>
  C3, as stated: \<open>check\<close> returns a nonzero value for every heap in which an invariant is
  violated. In \<open>broken_heap\<close> the end-of-heap word is 0, which violates I6, and \<open>mm_check\<close>
  returns 0.
\<close>

theorem mm_check_counterexample: "\<not> I6 broken_heap \<and> mm_check broken_heap = 0"
  by (simp add: I6_def broken_heap_def init_heap_def mm_check_def SIZE_def ALIGNMENT_def
      TAG_USED_def)

text \<open>
  C3, amended: \<open>check\<close> returns 0 for every heap state; it inspects nothing, so it returns 0
  when all invariants hold and reports no violation.
\<close>

theorem mm_check_zero: "mm_check s = 0"
  by (simp add: mm_check_def)

text \<open>
  C9: when the head slot is readable and the \<open>next\<close> pointers from the head visit the blocks
  \<open>bs\<close> and end at null, the search for \<open>n\<close> bytes returns the first block of \<open>bs\<close> whose size
  is at least \<open>n\<close>, and null when \<open>bs\<close> has no such block.
\<close>

theorem search_free_list_first_fit:
  assumes "valid_ptr s (mem_heap_lo s)"
    and "free_list s (mem s (unat (mem_heap_lo s))) bs"
  shows "search_free_list s n =
           ret (case find (\<lambda>b. n \<le> SIZE (mem s (unat b))) bs of None \<Rightarrow> 0 | Some b \<Rightarrow> b)"
  using assms
  by (simp add: search_free_list_def get_FREE_LIST_HEAD_def load_valid search_loop_free_list)

theorem search_free_list_first_fit_witness:
  "valid_ptr two_free_heap (mem_heap_lo two_free_heap) \<and>
   free_list two_free_heap (mem two_free_heap (unat (mem_heap_lo two_free_heap)))
     [0x10008, 0x10048] \<and>
   search_free_list two_free_heap 40 = ret 0x10048 \<and>
   search_free_list two_free_heap 24 = ret 0x10008 \<and>
   search_free_list two_free_heap 72 = ret 0"
proof -
  have v: "valid_ptr two_free_heap (mem_heap_lo two_free_heap)"
    by (simp add: valid_ptr_def in_heap_def mem_heap_lo_def two_free_heap_def)
  have f: "free_list two_free_heap (mem two_free_heap (unat (mem_heap_lo two_free_heap)))
             [0x10008, 0x10048]"
    by (simp add: valid_ptr_def in_heap_def mem_heap_lo_def two_free_heap_def next_of_def)
  show ?thesis
    using v f search_free_list_first_fit [OF v f, of 40]
      search_free_list_first_fit [OF v f, of 24] search_free_list_first_fit [OF v f, of 72]
    by (simp add: two_free_heap_def SIZE_def ALIGNMENT_def)
qed

text \<open>
  C10: when the header of \<open>B\<close> has its \<open>PREV_USED\<close> tag set and the header of the block that
  follows \<open>B\<close> in memory has its \<open>USED\<close> tag set, \<open>coalesce_free_block(B)\<close> returns and leaves
  the whole heap, hence the free list and every header and footer, unchanged.
\<close>

theorem coalesce_free_block_no_neighbour:
  assumes "load s B = ret h"
    and "h AND TAG_PRECEDING_USED \<noteq> 0"
    and "load s (UNSCALED_POINTER_ADD B (to_int (SIZE h))) = ret hf"
    and "hf AND TAG_USED \<noteq> 0"
  shows "coalesce_free_block s B = ret s"
proof -
  have p: "coalesce_preceding s B (SIZE h) = ret (s, B, SIZE h)"
    using assms(1,2) by (subst coalesce_preceding.simps) simp
  have f: "coalesce_following s (UNSCALED_POINTER_ADD B (to_int (SIZE h))) (SIZE h) =
             ret (s, UNSCALED_POINTER_ADD B (to_int (SIZE h)), SIZE h)"
    using assms(3,4) by (subst coalesce_following.simps) simp
  show ?thesis
    using assms(1) p f by (simp add: coalesce_free_block_def)
qed

theorem coalesce_free_block_no_neighbour_witness:
  "load init_heap 0x10008 = ret 34 \<and> (34 :: 64 word) AND TAG_PRECEDING_USED \<noteq> 0 \<and>
   load init_heap (UNSCALED_POINTER_ADD 0x10008 (to_int (SIZE 34))) = ret 1 \<and>
   (1 :: 64 word) AND TAG_USED \<noteq> 0 \<and>
   coalesce_free_block init_heap 0x10008 = ret init_heap"
proof -
  have a: "load init_heap 0x10008 = ret 34"
    by (simp add: load_def in_heap_def init_heap_def)
  have b: "(34 :: 64 word) AND TAG_PRECEDING_USED \<noteq> 0"
    by (simp add: TAG_PRECEDING_USED_def)
  have c: "load init_heap (UNSCALED_POINTER_ADD 0x10008 (to_int (SIZE 34))) = ret 1"
    by (simp add: load_def in_heap_def init_heap_def UNSCALED_POINTER_ADD_def to_int_def
        SIZE_def ALIGNMENT_def)
  have d: "(1 :: 64 word) AND TAG_USED \<noteq> 0"
    by (simp add: TAG_USED_def)
  show ?thesis
    using a b c d coalesce_free_block_no_neighbour [OF a b c d] by simp
qed

end
